theory Spec2Isabelle
  imports Main "HOL-Library.Sublist" "HOL-Library.AList"
begin

section \<open>Authorization gate of the admin portal (admin/js/auth.js)\<close>

text \<open>
  The signed-in Firebase user, the claims of its refreshed ID token and the value
  \<open>checkAdminRole\<close> resolves to. \<open>getIdTokenResult(true)\<close> is a call into the
  identity provider: its outcome is an input of the model, \<open>Inl\<close> when the call throws.
\<close>

record user =
  user_uid :: string
  user_email :: string

record js_error =
  err_code :: string
  err_message :: string

record id_token_result =
  claims_role :: "string option"

record admin_data =
  ad_uid :: string
  ad_email :: string
  ad_role :: string
  isSuperAdmin :: bool

definition SUPER_ADMIN :: string where
  "SUPER_ADMIN = ''super_admin''"

definition ADMIN :: string where
  "ADMIN = ''admin''"

definition checkAdminRole :: "user option \<Rightarrow> js_error + id_token_result \<Rightarrow> admin_data option" where
  "checkAdminRole usr tokenResult =
     (case usr of
        None \<Rightarrow> None
      | Some u \<Rightarrow>
          (case tokenResult of
             Inl error \<Rightarrow> None
           | Inr t \<Rightarrow>
               (case claims_role t of
                  None \<Rightarrow> None
                | Some role \<Rightarrow>
                    if role = SUPER_ADMIN \<or> role = ADMIN
                    then Some \<lparr>ad_uid = user_uid u, ad_email = user_email u,
                               ad_role = role, isSuperAdmin = (role = SUPER_ADMIN)\<rparr>
                    else None)))"

text \<open>
  What a page load does under \<open>protectRoute\<close>, as the trace of its effects: a redirect,
  a global sign-out, or the page's callback run on the resolved admin. The callback is
  optional in the source (\<open>if (callback)\<close>).
\<close>

datatype action = Redirect string | SignOut | Callback admin_data

definition protectRoute :: "bool \<Rightarrow> user option \<Rightarrow> js_error + id_token_result \<Rightarrow> action list" where
  "protectRoute callback usr tokenResult =
     (case usr of
        None \<Rightarrow> [Redirect ''login.html'']
      | Some u \<Rightarrow>
          (case checkAdminRole (Some u) tokenResult of
             None \<Rightarrow> [SignOut, Redirect ''login.html'']
           | Some adminData \<Rightarrow> if callback then [Callback adminData] else []))"

section \<open>Admin management Cloud Functions (functions/index.js)\<close>

text \<open>
  The backend the callable functions work on: the Firestore collection \<open>admins\<close>, as a
  list of documents keyed by id, and the accounts of Firebase Authentication with their
  \<open>disabled\<close> flag. The caller of a function is \<open>context.auth\<close>: absent, or a uid with
  the role claim of its ID token.
\<close>

record admin_doc =
  adm_name :: string
  adm_email :: string
  adm_role :: string
  adm_disabled :: bool
  adm_updatedBy :: "string option"

record backend =
  admins :: "(string \<times> admin_doc) list"
  authUsers :: "(string \<times> bool) list"

record caller =
  auth_uid :: string
  token_role :: "string option"

text \<open>
  An error thrown inside a function: an \<open>HttpsError\<close> with its code and message, or an
  error of the platform (Authentication, Firestore) with its \<open>code\<close> and message.
\<close>

datatype thrown = HttpsError string string | PlatformError string string

fun thrown_code :: "thrown \<Rightarrow> string" where
  "thrown_code (HttpsError c m) = c"
| "thrown_code (PlatformError c m) = c"

fun thrown_message :: "thrown \<Rightarrow> string" where
  "thrown_message (HttpsError c m) = m"
| "thrown_message (PlatformError c m) = m"

record reply =
  success :: bool
  message :: string

definition verifySuperAdmin :: "caller option \<Rightarrow> thrown + caller" where
  "verifySuperAdmin ctx =
     (case ctx of
        None \<Rightarrow> Inl (HttpsError ''unauthenticated'' ''User must be authenticated'')
      | Some c \<Rightarrow>
          if token_role c \<noteq> Some ''super_admin''
          then Inl (HttpsError ''permission-denied'' ''Only super admins can perform this action'')
          else Inr c)"

text \<open>
  The platform calls the two functions make. \<open>auth.updateUser\<close> and \<open>auth.deleteUser\<close>
  throw \<open>auth/user-not-found\<close> for an unknown uid; a Firestore \<open>update\<close> throws when the
  document does not exist, a Firestore \<open>delete\<close> does not.
\<close>

definition auth_updateUser :: "string \<Rightarrow> bool \<Rightarrow> backend \<Rightarrow> thrown + backend" where
  "auth_updateUser uid dis st =
     (case map_of (authUsers st) uid of
        None \<Rightarrow> Inl (PlatformError ''auth/user-not-found'' ''There is no user record corresponding to the provided identifier.'')
      | Some _ \<Rightarrow> Inr (st\<lparr>authUsers := AList.update uid dis (authUsers st)\<rparr>))"

definition auth_deleteUser :: "string \<Rightarrow> backend \<Rightarrow> thrown + backend" where
  "auth_deleteUser uid st =
     (case map_of (authUsers st) uid of
        None \<Rightarrow> Inl (PlatformError ''auth/user-not-found'' ''There is no user record corresponding to the provided identifier.'')
      | Some _ \<Rightarrow> Inr (st\<lparr>authUsers := AList.delete uid (authUsers st)\<rparr>))"

definition adminsDoc_update :: "string \<Rightarrow> bool \<Rightarrow> string \<Rightarrow> backend \<Rightarrow> thrown + backend" where
  "adminsDoc_update adminId dis updater st =
     (case map_of (admins st) adminId of
        None \<Rightarrow> Inl (PlatformError ''not-found'' ''No document to update'')
      | Some d \<Rightarrow>
          Inr (st\<lparr>admins := AList.update adminId
                 (d\<lparr>adm_disabled := dis, adm_updatedBy := Some updater\<rparr>) (admins st)\<rparr>))"

definition adminsDoc_delete :: "string \<Rightarrow> backend \<Rightarrow> backend" where
  "adminsDoc_delete adminId st = st\<lparr>admins := AList.delete adminId (admins st)\<rparr>"

text \<open>The query \<open>where role == super_admin, where disabled == false\<close> and its size.\<close>

definition superAdmins :: "backend \<Rightarrow> (string \<times> admin_doc) list" where
  "superAdmins st =
     filter (\<lambda>(i, d). adm_role d = ''super_admin'' \<and> adm_disabled d = False) (admins st)"

record toggle_data =
  tg_adminId :: "string option"
  tg_disable :: bool

text \<open>
  \<open>toggleAdminStatus\<close>. The result pairs what the caller receives with the backend
  after the call: a write made before a later step throws stays made.
\<close>

definition toggleAdminStatus :: "toggle_data \<Rightarrow> caller option \<Rightarrow> backend \<Rightarrow> (thrown + reply) \<times> backend" where
  "toggleAdminStatus data ctx st =
     (case verifySuperAdmin ctx of
        Inl e \<Rightarrow> (Inl e, st)
      | Inr c \<Rightarrow>
          (case tg_adminId data of
             None \<Rightarrow> (Inl (HttpsError ''invalid-argument'' ''Admin ID is required''), st)
           | Some adminId \<Rightarrow>
               if adminId = [] then (Inl (HttpsError ''invalid-argument'' ''Admin ID is required''), st)
               else if adminId = auth_uid c
               then (Inl (HttpsError ''invalid-argument'' ''Cannot disable your own account''), st)
               else
                 (case auth_updateUser adminId (tg_disable data) st of
                    Inl error \<Rightarrow> (Inl (HttpsError ''internal'' (thrown_message error)), st)
                  | Inr st1 \<Rightarrow>
                      (case adminsDoc_update adminId (tg_disable data) (auth_uid c) st1 of
                         Inl error \<Rightarrow> (Inl (HttpsError ''internal'' (thrown_message error)), st1)
                       | Inr st2 \<Rightarrow>
                           (Inr \<lparr>success = True,
                                 message = ''Admin '' @ (if tg_disable data then ''disabled'' else ''enabled'')
                                             @ '' successfully''\<rparr>, st2)))))"

text \<open>
  \<open>deleteAdmin\<close>. The body of its \<open>try\<close> block comes first: the last-super-admin check,
  the deletion of the account, the deletion of the document. Whatever the block throws
  reaches the \<open>catch\<close> clause of \<open>deleteAdmin\<close>, the \<open>HttpsError\<close> of the check included.
\<close>

definition deleteAdmin_try :: "string \<Rightarrow> backend \<Rightarrow> (thrown + reply) \<times> backend" where
  "deleteAdmin_try adminId st =
     (if (case map_of (admins st) adminId of
            None \<Rightarrow> False
          | Some adminDoc \<Rightarrow> adm_role adminDoc = ''super_admin'')
         \<and> length (superAdmins st) \<le> 1
      then (Inl (HttpsError ''failed-precondition'' ''Cannot delete the last super admin''), st)
      else
        (case auth_deleteUser adminId st of
           Inl error \<Rightarrow> (Inl error, st)
         | Inr st1 \<Rightarrow>
             (Inr \<lparr>success = True, message = ''Admin deleted successfully''\<rparr>,
              adminsDoc_delete adminId st1)))"

record delete_data =
  dl_adminId :: "string option"

definition deleteAdmin :: "delete_data \<Rightarrow> caller option \<Rightarrow> backend \<Rightarrow> (thrown + reply) \<times> backend" where
  "deleteAdmin data ctx st =
     (case verifySuperAdmin ctx of
        Inl e \<Rightarrow> (Inl e, st)
      | Inr c \<Rightarrow>
          (case dl_adminId data of
             None \<Rightarrow> (Inl (HttpsError ''invalid-argument'' ''Admin ID is required''), st)
           | Some adminId \<Rightarrow>
               if adminId = [] then (Inl (HttpsError ''invalid-argument'' ''Admin ID is required''), st)
               else if adminId = auth_uid c
               then (Inl (HttpsError ''invalid-argument'' ''Cannot delete your own account''), st)
               else
                 (case deleteAdmin_try adminId st of
                    (Inr r, st1) \<Rightarrow> (Inr r, st1)
                  | (Inl error, st1) \<Rightarrow>
                      if thrown_code error = ''auth/user-not-found''
                      then (Inr \<lparr>success = True, message = ''Admin deleted from database''\<rparr>,
                            adminsDoc_delete adminId st1)
                      else (Inl (HttpsError ''internal'' (thrown_message error)), st1))))"

text \<open>
  Two backends used to run the functions: one with two enabled super admins, and one
  where \<open>root\<close> is the only enabled super admin beside a disabled one.
\<close>

definition super_admin_doc :: "string \<Rightarrow> bool \<Rightarrow> admin_doc" where
  "super_admin_doc n dis =
     \<lparr>adm_name = n, adm_email = n @ ''@example.com'', adm_role = ''super_admin'',
      adm_disabled = dis, adm_updatedBy = None\<rparr>"

definition two_super_admins :: backend where
  "two_super_admins =
     \<lparr>admins = [(''alice'', super_admin_doc ''alice'' False), (''bob'', super_admin_doc ''bob'' False)],
      authUsers = [(''alice'', False), (''bob'', False)]\<rparr>"

definition one_enabled_super_admin :: backend where
  "one_enabled_super_admin =
     \<lparr>admins = [(''root'', super_admin_doc ''root'' False), (''old'', super_admin_doc ''old'' True)],
      authUsers = [(''root'', False), (''old'', True)]\<rparr>"

definition super_admin_caller :: "string \<Rightarrow> caller option" where
  "super_admin_caller u = Some \<lparr>auth_uid = u, token_role = Some ''super_admin''\<rparr>"

section \<open>Strings of the browser code\<close>

text \<open>
  Strings are ASCII text. \<open>toLowerCase\<close> maps the letters A to Z, \<open>trim\<close> removes the
  white space at both ends, \<open>str_includes\<close> is the substring test of \<open>String.includes\<close>,
  and \<open>showNat\<close> and \<open>showInt\<close> are the decimal text a template literal gives a whole
  number.
\<close>

definition lower_char :: "char \<Rightarrow> char" where
  "lower_char c =
     (if 65 \<le> (of_char c :: nat) \<and> (of_char c :: nat) \<le> 90
      then char_of ((of_char c :: nat) + 32) else c)"

definition toLowerCase :: "string \<Rightarrow> string" where
  "toLowerCase s = map lower_char s"

definition is_space :: "char \<Rightarrow> bool" where
  "is_space c = ((of_char c :: nat) = 32 \<or> (9 \<le> (of_char c :: nat) \<and> (of_char c :: nat) \<le> 13))"

definition trim :: "string \<Rightarrow> string" where
  "trim s = rev (dropWhile is_space (rev (dropWhile is_space s)))"

fun str_includes :: "string \<Rightarrow> string \<Rightarrow> bool" where
  "str_includes [] t = (t = [])"
| "str_includes (c # s) t = (prefix t (c # s) \<or> str_includes s t)"

definition digit_char :: "nat \<Rightarrow> char" where
  "digit_char d = char_of (48 + d)"

fun showNat :: "nat \<Rightarrow> string" where
  "showNat n = (if n < 10 then [digit_char n] else showNat (n div 10) @ [digit_char (n mod 10)])"

declare showNat.simps [simp del]


section \<open>Orders page of the admin portal (orders module)\<close>

text \<open>
  An order document as the page reads it. \<open>createdAt\<close> is what
  \<open>order.createdAt ? new Date(order.createdAt) : null\<close> sees: no value, a value that
  \<open>Date\<close> cannot parse (an invalid date, which compares false with everything), or an
  instant in milliseconds. Totals are whole rupees; a missing field is \<open>None\<close>.
\<close>

datatype created_at = Absent | Unparsable | Millis int

record address =
  addr_name :: "string option"
  addr_phone :: "string option"
  addr_email :: "string option"

record item =
  item_name :: string
  item_quantity :: int

record history_entry =
  h_status :: string
  h_timestamp :: string
  h_message :: string
  h_updatedBy :: string

record order =
  order_id :: string
  address :: "address option"
  items :: "item list option"
  total :: "int option"
  paymentMethod :: "string option"
  status :: string
  statusHistory :: "history_entry list"
  createdAt :: created_at
  updatedAt :: "string option"

datatype toast = Toast string string

text \<open>The state of the page: the mirror of the collection, the filtered set, the page.\<close>

record orders_page =
  allOrders :: "order list"
  filteredOrders :: "order list"
  currentPage :: int

definition itemsPerPage :: int where
  "itemsPerPage = 10"

subsection \<open>Statistics\<close>

text \<open>
  \<open>updateStats\<close> walks the mirror with four counters; \<open>today\<close> is local midnight of the
  current day, as \<open>setHours(0, 0, 0, 0)\<close> leaves it. \<open>orderDate >= today\<close> is false for
  an invalid date, and \<open>order.total || 0\<close> is 0 for a missing total.
\<close>

record order_stats =
  totalOrders :: nat
  pendingOrders :: nat
  deliveredOrders :: nat
  todayRevenue :: int

fun on_or_after :: "created_at \<Rightarrow> int \<Rightarrow> bool" where
  "on_or_after Absent start = False"
| "on_or_after Unparsable start = False"
| "on_or_after (Millis t) start = (start \<le> t)"

definition total_or_0 :: "order \<Rightarrow> int" where
  "total_or_0 ord = (case total ord of None \<Rightarrow> 0 | Some t \<Rightarrow> t)"

definition updateStats_step :: "int \<Rightarrow> order \<Rightarrow> order_stats \<Rightarrow> order_stats" where
  "updateStats_step today ord acc =
     (let acc1 = acc\<lparr>totalOrders := totalOrders acc + 1\<rparr>;
          acc2 = (if status ord \<in> set [''confirmed'', ''packed'', ''out_for_delivery'']
                  then acc1\<lparr>pendingOrders := pendingOrders acc1 + 1\<rparr> else acc1);
          acc3 = (if status ord = ''delivered''
                  then acc2\<lparr>deliveredOrders := deliveredOrders acc2 + 1\<rparr> else acc2)
      in if on_or_after (createdAt ord) today \<and> status ord \<noteq> ''cancelled''
         then acc3\<lparr>todayRevenue := todayRevenue acc3 + total_or_0 ord\<rparr> else acc3)"

definition updateStats :: "int \<Rightarrow> order list \<Rightarrow> order_stats" where
  "updateStats today orders =
     fold (updateStats_step today) orders
       \<lparr>totalOrders = 0, pendingOrders = 0, deliveredOrders = 0, todayRevenue = 0\<rparr>"

text \<open>
  \<open>loadOrderStats\<close> of the dashboard makes the same pass, without the delivered count,
  over the documents \<open>getDocs\<close> returns; when \<open>getDocs\<close> throws it only logs.
\<close>

record dashboard_stats =
  dash_totalOrders :: nat
  dash_pendingOrders :: nat
  dash_todayRevenue :: int

definition loadOrderStats_step :: "int \<Rightarrow> order \<Rightarrow> dashboard_stats \<Rightarrow> dashboard_stats" where
  "loadOrderStats_step today ord acc =
     (let acc1 = acc\<lparr>dash_totalOrders := dash_totalOrders acc + 1\<rparr>;
          acc2 = (if status ord \<in> set [''confirmed'', ''packed'', ''out_for_delivery'']
                  then acc1\<lparr>dash_pendingOrders := dash_pendingOrders acc1 + 1\<rparr> else acc1)
      in if on_or_after (createdAt ord) today \<and> status ord \<noteq> ''cancelled''
         then acc2\<lparr>dash_todayRevenue := dash_todayRevenue acc2 + total_or_0 ord\<rparr> else acc2)"

definition loadOrderStats :: "int \<Rightarrow> js_error + order list \<Rightarrow> dashboard_stats option" where
  "loadOrderStats today snapshot =
     (case snapshot of
        Inl error \<Rightarrow> None
      | Inr orders \<Rightarrow>
          Some (fold (loadOrderStats_step today) orders
                  \<lparr>dash_totalOrders = 0, dash_pendingOrders = 0, dash_todayRevenue = 0\<rparr>))"

subsection \<open>Filters and pages\<close>

text \<open>
  The three controls of the page, and the starts of the named date ranges as \<open>Date\<close>
  computes them when the filter runs: local midnight, \<open>setDate(getDate() - 7)\<close> and
  \<open>setMonth(getMonth() - 1)\<close>.
\<close>

record filters =
  searchInput :: string
  statusFilter :: string
  dateFilter :: string

record range_starts =
  today :: int
  weekAgo :: int
  monthAgo :: int

definition field_includes :: "string option \<Rightarrow> string \<Rightarrow> bool" where
  "field_includes field search =
     (case field of None \<Rightarrow> False | Some v \<Rightarrow> v \<noteq> [] \<and> str_includes v search)"

definition matchesSearch :: "string \<Rightarrow> order \<Rightarrow> bool" where
  "matchesSearch search ord =
     (search = []
      \<or> str_includes (toLowerCase (order_id ord)) search
      \<or> (case address ord of None \<Rightarrow> False
          | Some a \<Rightarrow> field_includes (map_option toLowerCase (addr_name a)) search)
      \<or> (case address ord of None \<Rightarrow> False
          | Some a \<Rightarrow> field_includes (addr_phone a) search)
      \<or> (case address ord of None \<Rightarrow> False
          | Some a \<Rightarrow> field_includes (map_option toLowerCase (addr_email a)) search))"

definition matchesStatus :: "string \<Rightarrow> order \<Rightarrow> bool" where
  "matchesStatus st ord = (st = [] \<or> status ord = st)"

definition matchesDate :: "string \<Rightarrow> range_starts \<Rightarrow> order \<Rightarrow> bool" where
  "matchesDate df starts ord =
     (if df \<noteq> [] \<and> df \<noteq> ''all''
      then (case createdAt ord of
              Absent \<Rightarrow> True
            | orderDate \<Rightarrow>
                if df = ''today'' then on_or_after orderDate (today starts)
                else if df = ''week'' then on_or_after orderDate (weekAgo starts)
                else if df = ''month'' then on_or_after orderDate (monthAgo starts)
                else True)
      else True)"

text \<open>
  JavaScript's \<open>Array.slice\<close>: a negative index counts from the end, and both indices
  are clamped to the array.
\<close>

definition slice :: "'a list \<Rightarrow> int \<Rightarrow> int \<Rightarrow> 'a list" where
  "slice xs start endIdx =
     (let n = int (length xs);
          s = (if start < 0 then max (n + start) 0 else min start n);
          e = (if endIdx < 0 then max (n + endIdx) 0 else min endIdx n)
      in take (nat (e - s)) (drop (nat s) xs))"

text \<open>\<open>renderTable\<close> yields the orders of the rows it writes into the table.\<close>

definition renderTable :: "orders_page \<Rightarrow> order list" where
  "renderTable pg =
     (if length (filteredOrders pg) = 0 then []
      else
        (let start = (currentPage pg - 1) * itemsPerPage;
             endIdx = min (start + itemsPerPage) (int (length (filteredOrders pg)))
         in slice (filteredOrders pg) start endIdx))"

definition applyFilters :: "filters \<Rightarrow> range_starts \<Rightarrow> orders_page \<Rightarrow> orders_page" where
  "applyFilters f starts pg =
     (let search = trim (toLowerCase (searchInput f))
      in pg\<lparr>filteredOrders :=
               filter (\<lambda>ord. matchesSearch search ord \<and> matchesStatus (statusFilter f) ord
                              \<and> matchesDate (dateFilter f) starts ord) (allOrders pg),
             currentPage := 1\<rparr>)"

definition changePage :: "int \<Rightarrow> orders_page \<Rightarrow> orders_page" where
  "changePage page pg = pg\<lparr>currentPage := page\<rparr>"

subsection \<open>The starts of the date ranges\<close>

text \<open>
  The filter reads the clock with \<open>new Date()\<close> and moves the reading with \<open>setHours\<close>,
  \<open>setDate\<close> and \<open>setMonth\<close>. These work on the local calendar fields of the reading, as
  ECMAScript defines them: \<open>MakeDay\<close> is the day number of a year, a month (0 to 11, a
  month outside that range counting into the neighbouring years) and a day of the
  month (a day outside the month counting into the neighbouring months), and
  \<open>MakeDate\<close> adds the time within the day. \<open>toUTC\<close> turns a local time into the instant
  it denotes in the time zone of the browser.
\<close>

definition msPerDay :: int where
  "msPerDay = 86400000"

definition isLeapYear :: "int \<Rightarrow> bool" where
  "isLeapYear y = ((y mod 4 = 0 \<and> y mod 100 \<noteq> 0) \<or> y mod 400 = 0)"

definition DaysInMonth :: "int \<Rightarrow> int \<Rightarrow> int" where
  "DaysInMonth y m =
     (if m = 1 then (if isLeapYear y then 29 else 28)
      else if m = 3 \<or> m = 5 \<or> m = 8 \<or> m = 10 then 30 else 31)"

definition DayFromYear :: "int \<Rightarrow> int" where
  "DayFromYear y = 365 * (y - 1970) + (y - 1969) div 4 - (y - 1901) div 100 + (y - 1601) div 400"

definition DayWithinYear :: "int \<Rightarrow> int \<Rightarrow> int" where
  "DayWithinYear y m =
     [0, 31, 59, 90, 120, 151, 181, 212, 243, 273, 304, 334] ! nat m
     + (if 2 \<le> m \<and> isLeapYear y then 1 else 0)"

definition MakeDay :: "int \<Rightarrow> int \<Rightarrow> int \<Rightarrow> int" where
  "MakeDay year month date =
     (let ym = year + month div 12; mn = month mod 12
      in DayFromYear ym + DayWithinYear ym mn + date - 1)"

definition MakeDate :: "int \<Rightarrow> int \<Rightarrow> int" where
  "MakeDate day time = day * msPerDay + time"

text \<open>
  The local fields of the reading of the clock: the year, the month (0 to 11), the day
  of the month and the milliseconds since local midnight.
\<close>

record local_reading =
  getFullYear :: int
  getMonth :: int
  getDate :: int
  timeWithinDay :: int

text \<open>
  The three starts as \<open>applyFilters\<close> computes them: \<open>setHours(0, 0, 0, 0)\<close>,
  \<open>setDate(now.getDate() - 7)\<close> and \<open>setMonth(now.getMonth() - 1)\<close>, each on a fresh
  reading of the clock; the readings of one run of the filter are taken to be the same.
\<close>

definition dateRangeStarts :: "(int \<Rightarrow> int) \<Rightarrow> local_reading \<Rightarrow> range_starts" where
  "dateRangeStarts toUTC now =
     \<lparr>today = toUTC (MakeDate (MakeDay (getFullYear now) (getMonth now) (getDate now)) 0),
      weekAgo = toUTC (MakeDate (MakeDay (getFullYear now) (getMonth now) (getDate now - 7))
                         (timeWithinDay now)),
      monthAgo = toUTC (MakeDate (MakeDay (getFullYear now) (getMonth now - 1) (getDate now))
                          (timeWithinDay now))\<rparr>"

subsection \<open>Changing the status of an order\<close>

text \<open>
  \<open>formatStatus\<close> is \<open>statusMap[status] || status\<close>, and every caller puts its result
  into a template literal. The lookup follows the prototype chain: for a name that
  \<open>statusMap\<close> does not have itself, such as \<open>constructor\<close> or \<open>toString\<close>, it finds the
  property of \<open>Object.prototype\<close>. \<open>inherited\<close> gives the text the browser renders such a
  property as, and \<open>None\<close> for a name \<open>Object.prototype\<close> does not have.
\<close>

definition formatStatus :: "(string \<Rightarrow> string option) \<Rightarrow> string \<Rightarrow> string" where
  "formatStatus inherited s =
     (case map_of [(''confirmed'', ''Confirmed''), (''packed'', ''Packed''),
                   (''out_for_delivery'', ''Out for Delivery''), (''delivered'', ''Delivered''),
                   (''cancelled'', ''Cancelled'')] s of
        Some label \<Rightarrow> label
      | None \<Rightarrow> (case inherited s of Some text \<Rightarrow> text | None \<Rightarrow> s))"

text \<open>The properties of \<open>Object.prototype\<close> as Chrome renders them.\<close>

definition native_function :: "string \<Rightarrow> string" where
  "native_function n = ''function '' @ n @ ''() { [native code] }''"

definition chrome_inherited :: "string \<Rightarrow> string option" where
  "chrome_inherited s =
     (if s = ''constructor'' then Some (native_function ''Object'')
      else if s = ''__proto__'' then Some ''[object Object]''
      else if s \<in> set [''__defineGetter__'', ''__defineSetter__'', ''hasOwnProperty'',
                         ''__lookupGetter__'', ''__lookupSetter__'', ''isPrototypeOf'',
                         ''propertyIsEnumerable'', ''toString'', ''valueOf'', ''toLocaleString'']
      then Some (native_function s)
      else None)"

text \<open>
  Firestore's \<open>arrayUnion\<close> adds an element that the array does not hold yet, and
  \<open>updateDoc\<close> fails when the document does not exist. The store is the list of the
  order documents.
\<close>

definition arrayUnion :: "'a \<Rightarrow> 'a list \<Rightarrow> 'a list" where
  "arrayUnion x xs = (if x \<in> set xs then xs else xs @ [x])"

definition updateDoc :: "string \<Rightarrow> (order \<Rightarrow> order) \<Rightarrow> order list \<Rightarrow> js_error + order list" where
  "updateDoc orderId upd store =
     (if orderId \<in> set (map order_id store)
      then Inr (map (\<lambda>d. if order_id d = orderId then upd d else d) store)
      else Inl \<lparr>err_code = ''not-found'', err_message = ''No document to update''\<rparr>)"

text \<open>
  \<open>changeStatus\<close>: the rendering of inherited properties, the answer to the \<open>confirm\<close>
  dialog, the two readings of the clock (for \<open>updatedAt\<close> and for the history entry), the
  signed-in admin and the store are inputs; the result is the toasts shown, the store afterwards and whether the order
  dialog was closed. With no admin signed in, reading \<open>currentAdmin.email\<close> throws
  inside the \<open>try\<close> block.
\<close>

record status_change =
  sc_toasts :: "toast list"
  sc_orders :: "order list"
  sc_modalClosed :: bool

definition changeStatus ::
  "(string \<Rightarrow> string option) \<Rightarrow> bool \<Rightarrow> string \<Rightarrow> string \<Rightarrow> admin_data option \<Rightarrow> string \<Rightarrow> string \<Rightarrow>
     order list \<Rightarrow> status_change" where
  "changeStatus inherited confirmed now1 now2 currentAdmin orderId newStatus store =
     (if \<not> confirmed then \<lparr>sc_toasts = [], sc_orders = store, sc_modalClosed = False\<rparr>
      else
        (case currentAdmin of
           None \<Rightarrow>
             \<lparr>sc_toasts = [Toast ''Updating status...'' ''info'',
                           Toast ''Failed to update status'' ''error''],
              sc_orders = store, sc_modalClosed = False\<rparr>
         | Some adm \<Rightarrow>
             (let historyEntry = \<lparr>h_status = newStatus, h_timestamp = now2,
                                   h_message = ''Order '' @ formatStatus inherited newStatus @ '' by admin'',
                                   h_updatedBy = ad_email adm\<rparr>
              in case updateDoc orderId
                        (\<lambda>d. d\<lparr>status := newStatus, updatedAt := Some now1,
                                statusHistory := arrayUnion historyEntry (statusHistory d)\<rparr>) store of
                   Inl error \<Rightarrow>
                     \<lparr>sc_toasts = [Toast ''Updating status...'' ''info'',
                                   Toast ''Failed to update status'' ''error''],
                      sc_orders = store, sc_modalClosed = False\<rparr>
                 | Inr store1 \<Rightarrow>
                     \<lparr>sc_toasts = [Toast ''Updating status...'' ''info'',
                                   Toast (''Order '' @ formatStatus inherited newStatus @ '' successfully!'') ''success''],
                      sc_orders = store1, sc_modalClosed = True\<rparr>)))"

text \<open>
  The order dialog of \<open>viewOrder\<close> is the only caller of \<open>changeStatus\<close>: for an order
  of a given status, \<open>statusActions\<close> lists the target statuses of the buttons its
  template holds.
\<close>

definition statusActions :: "string \<Rightarrow> string list" where
  "statusActions s =
     (if s \<noteq> ''cancelled''
      then (if s \<noteq> ''delivered''
            then (if s = ''confirmed'' then [''packed''] else [])
                 @ (if s = ''packed'' then [''out_for_delivery''] else [])
                 @ (if s = ''out_for_delivery'' then [''delivered''] else [])
                 @ [''cancelled'']
            else [])
      else [])"

text \<open>
  \<open>viewOrder\<close> looks the order up in the mirror and returns at once when it is not
  there. The template of the dialog evaluates \<open>order.items.map\<close> unguarded: for an
  order without \<open>items\<close> it throws, and neither the dialog nor a button is rendered.
  Otherwise the dialog opens with the buttons of \<open>statusActions\<close>.
\<close>

definition viewOrder :: "string \<Rightarrow> order list \<Rightarrow> (js_error + string list) option" where
  "viewOrder orderId orders =
     (case find (\<lambda>d. order_id d = orderId) orders of
        None \<Rightarrow> None
      | Some ord \<Rightarrow>
          (case items ord of
             None \<Rightarrow> Some (Inl \<lparr>err_code = ''TypeError'',
                                    err_message = ''order.items is undefined''\<rparr>)
           | Some its \<Rightarrow> Some (Inr (statusActions (status ord)))))"

text \<open>
  The legal edges as the specification words them: the immediate forward successor in
  the chain confirmed, packed, out_for_delivery, delivered; or cancellation of an order
  that is neither delivered nor cancelled.
\<close>

definition successor :: "string \<Rightarrow> string option" where
  "successor a =
     map_of [(''confirmed'', ''packed''), (''packed'', ''out_for_delivery''),
             (''out_for_delivery'', ''delivered'')] a"

definition transition_legal :: "string \<Rightarrow> string \<Rightarrow> bool" where
  "transition_legal a b =
     (successor a = Some b \<or> (b = ''cancelled'' \<and> a \<noteq> ''delivered'' \<and> a \<noteq> ''cancelled''))"

subsection \<open>The statistics as the specification words them\<close>

text \<open>
  An order is pending when its status is \<open>confirmed\<close>, \<open>packed\<close> or
  \<open>out_for_delivery\<close>; it counts towards today's revenue when it was created at or after
  local midnight and is not cancelled.
\<close>

definition is_pending :: "order \<Rightarrow> bool" where
  "is_pending ord =
     (status ord = ''confirmed'' \<or> status ord = ''packed'' \<or> status ord = ''out_for_delivery'')"

definition counts_today :: "int \<Rightarrow> order \<Rightarrow> bool" where
  "counts_today midnight ord =
     (on_or_after (createdAt ord) midnight \<and> status ord \<noteq> ''cancelled'')"

text \<open>An order with an id, a total, a status and a creation instant, for the examples.\<close>

definition example_order :: "string \<Rightarrow> int \<Rightarrow> string \<Rightarrow> int \<Rightarrow> order" where
  "example_order i t s c =
     \<lparr>order_id = i, address = None, items = None, total = Some t, paymentMethod = None,
      status = s, statusHistory = [], createdAt = Millis c, updatedAt = None\<rparr>"

definition order_with_items :: "string \<Rightarrow> int \<Rightarrow> string \<Rightarrow> int \<Rightarrow> order" where
  "order_with_items i t s c =
     (example_order i t s c)\<lparr>items := Some [\<lparr>item_name = ''Rice'', item_quantity = 1\<rparr>]\<rparr>"

subsection \<open>The filter predicates as the specification words them\<close>

text \<open>
  The search term is a substring of a field; the creation instant is at or after the
  start of the named range, and any other name of a range restricts nothing.
\<close>

definition opt_sublist :: "string \<Rightarrow> string option \<Rightarrow> bool" where
  "opt_sublist q field = (case field of None \<Rightarrow> False | Some v \<Rightarrow> sublist q v)"

definition search_matches :: "string \<Rightarrow> order \<Rightarrow> bool" where
  "search_matches q ord =
     (sublist q (toLowerCase (order_id ord))
      \<or> (case address ord of None \<Rightarrow> False
          | Some a \<Rightarrow> opt_sublist q (map_option toLowerCase (addr_name a))
                      \<or> opt_sublist q (addr_phone a)
                      \<or> opt_sublist q (map_option toLowerCase (addr_email a))))"

definition date_in_range :: "string \<Rightarrow> range_starts \<Rightarrow> order \<Rightarrow> bool" where
  "date_in_range df starts ord =
     (if df = ''today'' then on_or_after (createdAt ord) (today starts)
      else if df = ''week'' then on_or_after (createdAt ord) (weekAgo starts)
      else if df = ''month'' then on_or_after (createdAt ord) (monthAgo starts)
      else True)"

text \<open>
  The ranges in terms of the reading of the clock. \<open>local_now\<close> is the local time of the
  reading; the previous calendar month has \<open>previous_month_length\<close> days. An order is in
  the range \<open>today\<close> when it was created at or after local midnight, in the range \<open>week\<close>
  when it was created at or after the local time seven days before now, and in the
  range \<open>month\<close> when it was created at or after the local time that lies the length of
  the previous calendar month before now.
\<close>

definition local_now :: "local_reading \<Rightarrow> int" where
  "local_now now =
     MakeDate (MakeDay (getFullYear now) (getMonth now) (getDate now)) (timeWithinDay now)"

definition previous_month_length :: "local_reading \<Rightarrow> int" where
  "previous_month_length now =
     DaysInMonth (if getMonth now = 0 then getFullYear now - 1 else getFullYear now)
                 (if getMonth now = 0 then 11 else getMonth now - 1)"

definition created_in_range :: "string \<Rightarrow> (int \<Rightarrow> int) \<Rightarrow> local_reading \<Rightarrow> order \<Rightarrow> bool" where
  "created_in_range df toUTC now ord =
     (if df = ''today'' then on_or_after (createdAt ord) (toUTC (local_now now - timeWithinDay now))
      else if df = ''week'' then on_or_after (createdAt ord) (toUTC (local_now now - 7 * msPerDay))
      else if df = ''month''
      then on_or_after (createdAt ord) (toUTC (local_now now - previous_month_length now * msPerDay))
      else True)"

text \<open>
  Now minus one calendar month, as the specification words the range \<open>month\<close>: the same
  local time on the same day of the previous month, or on the last day of that month
  when it is shorter.
\<close>

definition one_calendar_month_before :: "local_reading \<Rightarrow> int" where
  "one_calendar_month_before now =
     (let y = (if getMonth now = 0 then getFullYear now - 1 else getFullYear now);
          m = (if getMonth now = 0 then 11 else getMonth now - 1)
      in MakeDate (MakeDay y m (min (getDate now) (DaysInMonth y m))) (timeWithinDay now))"

text \<open>
  A browser in India, five and a half hours ahead of UTC all year, at noon of 31 March
  2024, and an order created at noon of 1 March 2024.
\<close>

definition india :: "int \<Rightarrow> int" where
  "india t = t - 19800000"

definition noon_31_march_2024 :: local_reading where
  "noon_31_march_2024 =
     \<lparr>getFullYear = 2024, getMonth = 2, getDate = 31, timeWithinDay = 43200000\<rparr>"

definition order_of_1_march_2024 :: order where
  "order_of_1_march_2024 =
     example_order ''M'' 100 ''confirmed'' (india (MakeDate (MakeDay 2024 2 1) 43200000))"

text \<open>
  The two orders of the specification's filtering example, A created today and B
  created yesterday, with local midnight at 86400000 ms.
\<close>

definition example_starts :: range_starts where
  "example_starts = \<lparr>today = 86400000, weekAgo = - 500000000, monthAgo = - 2500000000\<rparr>"

definition orders_AB :: "order list" where
  "orders_AB = [example_order ''A'' 100 ''confirmed'' 86400000,
                example_order ''B'' 200 ''delivered'' 50000000]"

definition page_of :: "order list \<Rightarrow> orders_page" where
  "page_of os = \<lparr>allOrders = os, filteredOrders = [], currentPage = 3\<rparr>"

section \<open>Snapshot listeners (orders module, users module)\<close>

text \<open>
  A snapshot of a query: its documents, and the changes since the previous snapshot,
  each with its type. The first snapshot reports every document as added.
\<close>

datatype change_type = Added | Modified | Removed

record 'a doc_change =
  ch_type :: change_type
  ch_doc :: 'a

record 'a snapshot =
  snap_docs :: "'a list"
  snap_docChanges :: "'a doc_change list"

text \<open>
  The callback \<open>listenToOrders\<close> registers: it replaces the mirror, applies the filters
  (the statistics only write to the page) and shows at most one toast.
\<close>

definition listenToOrders :: "filters \<Rightarrow> range_starts \<Rightarrow> order snapshot \<Rightarrow> orders_page \<Rightarrow> toast list \<times> orders_page" where
  "listenToOrders f starts snapshot pg =
     (let pg1 = applyFilters f starts (pg\<lparr>allOrders := snap_docs snapshot\<rparr>);
          toasts =
            (if Added \<in> set (map ch_type (snap_docChanges snapshot))
             then (let newCount = length (filter (\<lambda>c. ch_type c = Added) (snap_docChanges snapshot))
                   in if newCount > 0 \<and> length (allOrders pg1) > newCount
                      then [Toast (showNat newCount @ '' new order(s) received!'') ''info'']
                      else [])
             else [])
      in (toasts, pg1))"

text \<open>A user document, with the fields the users page reads.\<close>

datatype user_created = Timestamp string | Raw string

record user_doc =
  ud_id :: string
  ud_name :: "string option"
  ud_email :: "string option"
  ud_phone :: "string option"
  ud_status :: "string option"
  ud_city :: "string option"
  ud_orderCount :: "nat option"
  ud_createdAt :: "user_created option"

text \<open>\<open>newUser.name || newUser.email\<close> inside a template literal.\<close>

definition name_or_email :: "user_doc \<Rightarrow> string" where
  "name_or_email u =
     (let email_text = (case ud_email u of None \<Rightarrow> ''undefined'' | Some e \<Rightarrow> e)
      in case ud_name u of
           None \<Rightarrow> email_text
         | Some n \<Rightarrow> if n = [] then email_text else n)"

text \<open>
  The callback \<open>setupRealtimeUsersListener\<close> registers: it replaces the mirror
  \<open>allUsers\<close>, then walks the changes and shows a toast for each added one when the new
  mirror holds more than one user.
\<close>

definition setupRealtimeUsersListener :: "user_doc snapshot \<Rightarrow> user_doc list \<Rightarrow> toast list \<times> user_doc list" where
  "setupRealtimeUsersListener snapshot allUsers =
     (let allUsers1 = snap_docs snapshot;
          toasts = concat (map (\<lambda>change.
                      if ch_type change = Added \<and> length allUsers1 > 1
                      then [Toast (''New user registered: '' @ name_or_email (ch_doc change)) ''success'']
                      else []) (snap_docChanges snapshot))
      in (toasts, allUsers1))"

definition example_user :: "string \<Rightarrow> string \<Rightarrow> user_doc" where
  "example_user i n =
     \<lparr>ud_id = i, ud_name = Some n, ud_email = None, ud_phone = None, ud_status = Some ''active'',
      ud_city = None, ud_orderCount = None, ud_createdAt = None\<rparr>"

definition added :: "'a \<Rightarrow> 'a doc_change" where
  "added d = \<lparr>ch_type = Added, ch_doc = d\<rparr>"

section \<open>CSV export (users module, orders module)\<close>



















subsection \<open>Reading CSV\<close>











section \<open>Role resolution and the route guard\<close>

text \<open>
  C5. For a signed-in identity whose freshly fetched role claim is absent or is neither
  \<open>admin\<close> nor \<open>super_admin\<close>, \<open>checkAdminRole\<close> returns null and \<open>protectRoute\<close> signs
  out and redirects to the login page; for a role claim \<open>admin\<close> or \<open>super_admin\<close> it
  returns the uid, the email, the role and \<open>isSuperAdmin\<close>, which is true exactly for
  \<open>super_admin\<close>.
\<close>

theorem checkAdminRole_resolves:
  "(r \<noteq> Some ''admin'' \<and> r \<noteq> Some ''super_admin'' \<longrightarrow>
      checkAdminRole (Some u) (Inr \<lparr>claims_role = r\<rparr>) = None \<and>
      protectRoute cb (Some u) (Inr \<lparr>claims_role = r\<rparr>) = [SignOut, Redirect ''login.html''])
   \<and> (r = Some ''admin'' \<or> r = Some ''super_admin'' \<longrightarrow>
      checkAdminRole (Some u) (Inr \<lparr>claims_role = r\<rparr>) =
        Some \<lparr>ad_uid = user_uid u, ad_email = user_email u, ad_role = the r,
              isSuperAdmin = (r = Some ''super_admin'')\<rparr>)"
  by (cases r) (auto simp: checkAdminRole_def protectRoute_def SUPER_ADMIN_def ADMIN_def)

theorem checkAdminRole_resolves_witness:
  "checkAdminRole (Some \<lparr>user_uid = ''u1'', user_email = ''shopper@example.com''\<rparr>)
      (Inr \<lparr>claims_role = Some ''customer''\<rparr>) = None
   \<and> protectRoute True (Some \<lparr>user_uid = ''u1'', user_email = ''shopper@example.com''\<rparr>)
      (Inr \<lparr>claims_role = Some ''customer''\<rparr>) = [SignOut, Redirect ''login.html'']
   \<and> checkAdminRole (Some \<lparr>user_uid = ''u2'', user_email = ''root@example.com''\<rparr>)
      (Inr \<lparr>claims_role = Some ''super_admin''\<rparr>) =
        Some \<lparr>ad_uid = ''u2'', ad_email = ''root@example.com'', ad_role = ''super_admin'',
              isSuperAdmin = True\<rparr>"
  using checkAdminRole_resolves [of "Some ''customer''"
          "\<lparr>user_uid = ''u1'', user_email = ''shopper@example.com''\<rparr>" True]
        checkAdminRole_resolves [of "Some ''super_admin''"
          "\<lparr>user_uid = ''u2'', user_email = ''root@example.com''\<rparr>" True]
  by simp

text \<open>
  C10. When fetching the claims throws, \<open>checkAdminRole\<close> catches the error and returns
  null, the same value as for a token without a role claim, and \<open>protectRoute\<close> signs
  the user out and redirects to the login page, whatever role the user holds.
\<close>

theorem checkAdminRole_token_failure:
  "checkAdminRole (Some u) (Inl e) = None
   \<and> checkAdminRole (Some u) (Inl e) = checkAdminRole (Some u) (Inr \<lparr>claims_role = None\<rparr>)
   \<and> protectRoute cb (Some u) (Inl e) = [SignOut, Redirect ''login.html'']"
  by (simp add: checkAdminRole_def protectRoute_def)

theorem checkAdminRole_token_failure_witness:
  "checkAdminRole (Some \<lparr>user_uid = ''u2'', user_email = ''root@example.com''\<rparr>)
      (Inl \<lparr>err_code = ''auth/network-request-failed'', err_message = ''offline''\<rparr>) = None
   \<and> protectRoute True (Some \<lparr>user_uid = ''u2'', user_email = ''root@example.com''\<rparr>)
      (Inl \<lparr>err_code = ''auth/network-request-failed'', err_message = ''offline''\<rparr>)
        = [SignOut, Redirect ''login.html'']"
  using checkAdminRole_token_failure
    [of "\<lparr>user_uid = ''u2'', user_email = ''root@example.com''\<rparr>"
        "\<lparr>err_code = ''auth/network-request-failed'', err_message = ''offline''\<rparr>" True]
  by simp

section \<open>Admin management: self-targeting and the last super admin\<close>

text \<open>
  C4. For an authenticated super admin, \<open>toggleAdminStatus\<close> with the caller's own uid
  and \<open>disable = true\<close> fails with \<open>invalid-argument\<close>, and so does \<open>deleteAdmin\<close> with
  the caller's own uid; the backend is returned as it was.
\<close>

theorem self_target_rejected:
  "token_role c = Some ''super_admin'' \<Longrightarrow>
     toggleAdminStatus \<lparr>tg_adminId = Some (auth_uid c), tg_disable = True\<rparr> (Some c) st =
       (Inl (HttpsError ''invalid-argument''
          (if auth_uid c = [] then ''Admin ID is required'' else ''Cannot disable your own account'')), st)
   \<and> deleteAdmin \<lparr>dl_adminId = Some (auth_uid c)\<rparr> (Some c) st =
       (Inl (HttpsError ''invalid-argument''
          (if auth_uid c = [] then ''Admin ID is required'' else ''Cannot delete your own account'')), st)"
  by (simp add: toggleAdminStatus_def deleteAdmin_def verifySuperAdmin_def)

theorem self_target_rejected_witness:
  "toggleAdminStatus \<lparr>tg_adminId = Some ''alice'', tg_disable = True\<rparr>
       (Some \<lparr>auth_uid = ''alice'', token_role = Some ''super_admin''\<rparr>) two_super_admins =
     (Inl (HttpsError ''invalid-argument'' ''Cannot disable your own account''), two_super_admins)
   \<and> deleteAdmin \<lparr>dl_adminId = Some ''alice''\<rparr>
       (Some \<lparr>auth_uid = ''alice'', token_role = Some ''super_admin''\<rparr>) two_super_admins =
     (Inl (HttpsError ''invalid-argument'' ''Cannot delete your own account''), two_super_admins)"
  using self_target_rejected
    [of "\<lparr>auth_uid = ''alice'', token_role = Some ''super_admin''\<rparr>" two_super_admins]
  by simp

text \<open>
  The last-super-admin check of \<open>deleteAdmin\<close> throws \<open>failed-precondition\<close> inside the
  \<open>try\<close> block, and the \<open>catch\<close> clause rethrows every error whose code is not
  \<open>auth/user-not-found\<close> as \<open>internal\<close>: the caller never sees \<open>failed-precondition\<close>.
\<close>

lemma deleteAdmin_last_super_admin_internal:
  "verifySuperAdmin ctx = Inr c \<Longrightarrow> adminId \<noteq> [] \<Longrightarrow> adminId \<noteq> auth_uid c \<Longrightarrow>
   map_of (admins st) adminId = Some d \<Longrightarrow> adm_role d = ''super_admin'' \<Longrightarrow>
   length (superAdmins st) \<le> 1 \<Longrightarrow>
   deleteAdmin \<lparr>dl_adminId = Some adminId\<rparr> ctx st =
     (Inl (HttpsError ''internal'' ''Cannot delete the last super admin''), st)"
  by (simp add: deleteAdmin_def deleteAdmin_try_def)

text \<open>
  C2. With \<open>root\<close> the only enabled super admin, \<open>root\<close> deleting the disabled super
  admin \<open>old\<close> is refused and nothing is deleted, but the error the caller receives has
  the code \<open>internal\<close>, not \<open>failed-precondition\<close>.
\<close>

theorem deleteAdmin_last_super_admin_code:
  "length (superAdmins one_enabled_super_admin) = 1
   \<and> deleteAdmin \<lparr>dl_adminId = Some ''old''\<rparr> (super_admin_caller ''root'') one_enabled_super_admin =
       (Inl (HttpsError ''internal'' ''Cannot delete the last super admin''), one_enabled_super_admin)"
  by (simp add: deleteAdmin_def deleteAdmin_try_def verifySuperAdmin_def superAdmins_def
      one_enabled_super_admin_def super_admin_caller_def super_admin_doc_def)

text \<open>
  With at least two enabled super admins the deletion of a super admin other than the
  caller goes through: the account and the document are removed.
\<close>

lemma deleteAdmin_two_super_admins:
  "deleteAdmin \<lparr>dl_adminId = Some ''bob''\<rparr> (super_admin_caller ''alice'') two_super_admins =
     (Inr \<lparr>success = True, message = ''Admin deleted successfully''\<rparr>,
      \<lparr>admins = [(''alice'', super_admin_doc ''alice'' False)], authUsers = [(''alice'', False)]\<rparr>)"
  by (simp add: deleteAdmin_def deleteAdmin_try_def verifySuperAdmin_def superAdmins_def
      two_super_admins_def super_admin_caller_def super_admin_doc_def
      auth_deleteUser_def adminsDoc_delete_def)

text \<open>
  \<open>deleteAdmin\<close> keeps an enabled super admin in the collection, whoever calls it and
  whatever it is called with: this is the check \<open>toggleAdminStatus\<close> does not make.
\<close>

lemma filter_delete_length:
  "distinct (map fst al) \<Longrightarrow> length (filter P al) \<le> Suc (length (filter P (AList.delete k al)))"
proof (induction al)
  case Nil
  then show ?case by simp
next
  case (Cons a al)
  obtain i d where a: "a = (i, d)" by (cases a)
  have notin: "i \<notin> fst ` set al" using Cons.prems a by simp
  show ?case
  proof (cases "i = k")
    case True
    then have "AList.delete k al = al" using notin by (simp add: delete_id)
    then show ?thesis using a True by simp
  next
    case False
    then show ?thesis using Cons a by simp
  qed
qed

lemma filter_delete_other:
  "map_of al k = Some d \<Longrightarrow> \<not> P (k, d) \<Longrightarrow> distinct (map fst al) \<Longrightarrow>
   filter P (AList.delete k al) = filter P al"
  by (induction al) (auto simp: delete_id rev_image_eqI split: if_splits)

lemma superAdmins_after_delete:
  assumes ne: "superAdmins st \<noteq> []" and dist: "distinct (map fst (admins st))"
    and same: "admins st1 = admins st"
    and chk: "\<not> ((case map_of (admins st) adminId of None \<Rightarrow> False
                   | Some adminDoc \<Rightarrow> adm_role adminDoc = ''super_admin'')
                \<and> length (superAdmins st) \<le> 1)"
  shows "superAdmins (adminsDoc_delete adminId st1) \<noteq> []"
proof -
  let ?P = "\<lambda>(i, d). adm_role d = ''super_admin'' \<and> adm_disabled d = False"
  have eq: "superAdmins (adminsDoc_delete adminId st1) = filter ?P (AList.delete adminId (admins st))"
    by (simp add: superAdmins_def adminsDoc_delete_def same)
  show ?thesis
  proof (cases "map_of (admins st) adminId")
    case None
    then have "adminId \<notin> fst ` set (admins st)" by (simp add: map_of_eq_None_iff)
    then have "AList.delete adminId (admins st) = admins st" by (simp add: delete_id)
    then show ?thesis using ne eq by (simp add: superAdmins_def)
  next
    case (Some d)
    show ?thesis
    proof (cases "adm_role d = ''super_admin''")
      case True
      then have "2 \<le> length (superAdmins st)" using chk Some by simp
      moreover have "length (filter ?P (admins st))
                       \<le> Suc (length (filter ?P (AList.delete adminId (admins st))))"
        using dist by (rule filter_delete_length)
      ultimately have "1 \<le> length (filter ?P (AList.delete adminId (admins st)))"
        by (simp add: superAdmins_def)
      then show ?thesis using eq by auto
    next
      case False
      then have "\<not> ?P (adminId, d)" by simp
      then have "filter ?P (AList.delete adminId (admins st)) = filter ?P (admins st)"
        using Some dist by (intro filter_delete_other)
      then show ?thesis using ne eq by (simp add: superAdmins_def)
    qed
  qed
qed

lemma auth_deleteUser_admins:
  "auth_deleteUser uid st = Inr st1 \<Longrightarrow> admins st1 = admins st"
  by (auto simp: auth_deleteUser_def split: option.splits)

lemma deleteAdmin_keeps_super_admin:
  assumes ne: "superAdmins st \<noteq> []" and dist: "distinct (map fst (admins st))"
  shows "superAdmins (snd (deleteAdmin data ctx st)) \<noteq> []"
proof -
  have body: "superAdmins (snd (case deleteAdmin_try adminId st of
                 (Inr r, st1) \<Rightarrow> (Inr r, st1)
               | (Inl error, st1) \<Rightarrow>
                   if thrown_code error = ''auth/user-not-found''
                   then (Inr \<lparr>success = True, message = ''Admin deleted from database''\<rparr>,
                         adminsDoc_delete adminId st1)
                   else (Inl (HttpsError ''internal'' (thrown_message error)), st1))) \<noteq> []"
    for adminId
    using ne superAdmins_after_delete [OF ne dist, of _ adminId]
    by (auto simp: deleteAdmin_try_def auth_deleteUser_admins split: sum.splits option.splits)
  show ?thesis
    unfolding deleteAdmin_def using ne body
    by (simp split: sum.splits option.splits)
qed

text \<open>
  C3. From a backend with the two enabled super admins \<open>alice\<close> and \<open>bob\<close>: \<open>alice\<close>
  disables \<open>bob\<close>, then \<open>bob\<close>, whose ID token still carries the \<open>super_admin\<close> claim,
  disables \<open>alice\<close>, the last enabled super admin. Both calls of \<open>toggleAdminStatus\<close>
  succeed, and no enabled super admin is left.
\<close>

theorem toggleAdminStatus_disables_last_super_admin:
  "map fst (superAdmins two_super_admins) = [''alice'', ''bob'']
   \<and> (case toggleAdminStatus \<lparr>tg_adminId = Some ''bob'', tg_disable = True\<rparr>
              (super_admin_caller ''alice'') two_super_admins of
        (r1, st1) \<Rightarrow>
          r1 = Inr \<lparr>success = True, message = ''Admin disabled successfully''\<rparr>
          \<and> map fst (superAdmins st1) = [''alice'']
          \<and> (case toggleAdminStatus \<lparr>tg_adminId = Some ''alice'', tg_disable = True\<rparr>
                     (super_admin_caller ''bob'') st1 of
               (r2, st2) \<Rightarrow>
                 r2 = Inr \<lparr>success = True, message = ''Admin disabled successfully''\<rparr>
                 \<and> superAdmins st2 = []))"
  by (simp add: toggleAdminStatus_def verifySuperAdmin_def superAdmins_def
      two_super_admins_def super_admin_caller_def super_admin_doc_def
      auth_updateUser_def adminsDoc_update_def)

section \<open>Derived statistics\<close>

lemma updateStats_step_fields:
  "totalOrders (updateStats_step t a acc) = totalOrders acc + 1"
  "pendingOrders (updateStats_step t a acc) = pendingOrders acc + (if is_pending a then 1 else 0)"
  "deliveredOrders (updateStats_step t a acc) =
     deliveredOrders acc + (if status a = ''delivered'' then 1 else 0)"
  "todayRevenue (updateStats_step t a acc) =
     todayRevenue acc + (if counts_today t a then total_or_0 a else 0)"
  by (simp_all add: updateStats_step_def is_pending_def counts_today_def Let_def)

lemma updateStats_fold:
  "fold (updateStats_step t) os acc =
     \<lparr>totalOrders = totalOrders acc + length os,
      pendingOrders = pendingOrders acc + length (filter is_pending os),
      deliveredOrders = deliveredOrders acc + length (filter (\<lambda>ord. status ord = ''delivered'') os),
      todayRevenue = todayRevenue acc + sum_list (map total_or_0 (filter (counts_today t) os))\<rparr>"
proof (induction os arbitrary: acc)
  case Nil
  then show ?case by simp
next
  case (Cons a os)
  show ?case
    by (simp add: Cons.IH updateStats_step_fields)
qed

lemma loadOrderStats_step_fields:
  "dash_totalOrders (loadOrderStats_step t a acc) = dash_totalOrders acc + 1"
  "dash_pendingOrders (loadOrderStats_step t a acc) =
     dash_pendingOrders acc + (if is_pending a then 1 else 0)"
  "dash_todayRevenue (loadOrderStats_step t a acc) =
     dash_todayRevenue acc + (if counts_today t a then total_or_0 a else 0)"
  by (simp_all add: loadOrderStats_step_def is_pending_def counts_today_def Let_def)

lemma loadOrderStats_fold:
  "fold (loadOrderStats_step t) os acc =
     \<lparr>dash_totalOrders = dash_totalOrders acc + length os,
      dash_pendingOrders = dash_pendingOrders acc + length (filter is_pending os),
      dash_todayRevenue = dash_todayRevenue acc + sum_list (map total_or_0 (filter (counts_today t) os))\<rparr>"
proof (induction os arbitrary: acc)
  case Nil
  then show ?case by simp
next
  case (Cons a os)
  show ?case
    by (simp add: Cons.IH loadOrderStats_step_fields)
qed

lemma stats_of_mirror:
  "pendingOrders (updateStats t os) = length (filter is_pending os)
   \<and> deliveredOrders (updateStats t os) = length (filter (\<lambda>ord. status ord = ''delivered'') os)
   \<and> todayRevenue (updateStats t os) = sum_list (map total_or_0 (filter (counts_today t) os))
   \<and> map_option dash_pendingOrders (loadOrderStats t (Inr os)) = Some (length (filter is_pending os))
   \<and> map_option dash_todayRevenue (loadOrderStats t (Inr os)) =
       Some (sum_list (map total_or_0 (filter (counts_today t) os)))"
  by (simp add: updateStats_def loadOrderStats_def updateStats_fold loadOrderStats_fold)

text \<open>
  C6. For every order set and every local midnight \<open>t\<close>, \<open>updateStats\<close> counts as
  pending the orders whose status is \<open>confirmed\<close>, \<open>packed\<close> or \<open>out_for_delivery\<close>, as
  delivered those whose status is \<open>delivered\<close>, and sums as today's revenue the totals
  of the orders created at or after \<open>t\<close> that are not cancelled; \<open>loadOrderStats\<close> of
  the dashboard computes the same pending count and revenue. For the totals 100 (today,
  confirmed), 200 (today, cancelled) and 50 (yesterday, confirmed), with midnight at
  86400000 ms, today's revenue is 100.
\<close>

theorem order_statistics:
  "pendingOrders (updateStats t os) = length (filter is_pending os)
   \<and> deliveredOrders (updateStats t os) = length (filter (\<lambda>ord. status ord = ''delivered'') os)
   \<and> todayRevenue (updateStats t os) = sum_list (map total_or_0 (filter (counts_today t) os))
   \<and> map_option dash_pendingOrders (loadOrderStats t (Inr os)) = Some (length (filter is_pending os))
   \<and> map_option dash_todayRevenue (loadOrderStats t (Inr os)) =
       Some (sum_list (map total_or_0 (filter (counts_today t) os)))
   \<and> todayRevenue (updateStats 86400000
        [example_order ''A'' 100 ''confirmed'' 86400000,
         example_order ''B'' 200 ''cancelled'' 90000000,
         example_order ''C'' 50 ''confirmed'' 50000000]) = 100"
proof -
  have "todayRevenue (updateStats 86400000
        [example_order ''A'' 100 ''confirmed'' 86400000,
         example_order ''B'' 200 ''cancelled'' 90000000,
         example_order ''C'' 50 ''confirmed'' 50000000]) = 100"
    using stats_of_mirror [of 86400000 "[example_order ''A'' 100 ''confirmed'' 86400000,
         example_order ''B'' 200 ''cancelled'' 90000000,
         example_order ''C'' 50 ''confirmed'' 50000000]"]
    by (simp add: counts_today_def example_order_def total_or_0_def)
  then show ?thesis
    using stats_of_mirror [of t os] by simp
qed

theorem order_statistics_witness:
  "pendingOrders (updateStats 1000
      [example_order ''P'' 70 ''packed'' 1500, example_order ''Q'' 30 ''delivered'' 2000,
       example_order ''R'' 5 ''cancelled'' 3000]) = 1
   \<and> deliveredOrders (updateStats 1000
      [example_order ''P'' 70 ''packed'' 1500, example_order ''Q'' 30 ''delivered'' 2000,
       example_order ''R'' 5 ''cancelled'' 3000]) = 1
   \<and> todayRevenue (updateStats 1000
      [example_order ''P'' 70 ''packed'' 1500, example_order ''Q'' 30 ''delivered'' 2000,
       example_order ''R'' 5 ''cancelled'' 3000]) = 100"
  using order_statistics [of 1000
      "[example_order ''P'' 70 ''packed'' 1500, example_order ''Q'' 30 ''delivered'' 2000,
        example_order ''R'' 5 ''cancelled'' 3000]"]
  by (simp add: is_pending_def counts_today_def example_order_def total_or_0_def)

section \<open>Order status transitions\<close>

text \<open>
  The buttons of the order dialog are exactly the legal edges of the status chain.
\<close>

lemma statusActions_legal: "(b \<in> set (statusActions a)) = transition_legal a b"
  by (auto simp: statusActions_def transition_legal_def successor_def)

lemma find_map_upd:
  "find (\<lambda>x. order_id x = oid) store = Some d \<Longrightarrow> (\<And>x. order_id (upd x) = order_id x) \<Longrightarrow>
   find (\<lambda>x. order_id x = oid) (map (\<lambda>d. if order_id d = oid then upd d else d) store) = Some (upd d)"
  by (induction store) (auto split: if_splits)

lemma find_Some_mem:
  "find (\<lambda>x. order_id x = oid) store = Some d \<Longrightarrow> oid \<in> order_id ` set store"
  by (induction store) (auto split: if_splits)

text \<open>
  The label of a status of the chain is its entry in \<open>statusMap\<close>; a name that only
  \<open>Object.prototype\<close> has is rendered as that property, any other name as itself.
\<close>

lemma formatStatus_examples:
  "formatStatus chrome_inherited ''out_for_delivery'' = ''Out for Delivery''"
  "formatStatus chrome_inherited ''constructor'' = ''function Object() { [native code] }''"
  "formatStatus chrome_inherited ''refunded'' = ''refunded''"
  by (simp_all add: formatStatus_def chrome_inherited_def native_function_def)

text \<open>
  C1, as the specification states it, fails: \<open>delivered\<close> to \<open>confirmed\<close> is not a legal
  edge, yet \<open>changeStatus\<close> on a delivered order with target \<open>confirmed\<close> reports
  success, sets the status to \<open>confirmed\<close> and adds the entry to the status history.
\<close>

theorem changeStatus_illegal_edge_succeeds:
  "\<not> transition_legal ''delivered'' ''confirmed''
   \<and> changeStatus chrome_inherited True ''t1'' ''t2''
        (Some \<lparr>ad_uid = ''u2'', ad_email = ''root@example.com'', ad_role = ''admin'',
               isSuperAdmin = False\<rparr>)
        ''A'' ''confirmed'' [order_with_items ''A'' 100 ''delivered'' 5] =
       \<lparr>sc_toasts = [Toast ''Updating status...'' ''info'',
                     Toast ''Order Confirmed successfully!'' ''success''],
        sc_orders = [(order_with_items ''A'' 100 ''delivered'' 5)
           \<lparr>status := ''confirmed'',
            statusHistory := [\<lparr>h_status = ''confirmed'', h_timestamp = ''t2'',
                h_message = ''Order Confirmed by admin'', h_updatedBy = ''root@example.com''\<rparr>],
            updatedAt := Some ''t1''\<rparr>],
        sc_modalClosed = True\<rparr>"
  by (simp add: transition_legal_def successor_def changeStatus_def updateDoc_def
      order_with_items_def example_order_def formatStatus_def arrayUnion_def)

text \<open>
  The dialog of \<open>viewOrder\<close> holds a button with target \<open>b\<close> exactly when the order of
  the mirror has its items and the edge from its status to \<open>b\<close> is legal.
\<close>

lemma viewOrder_buttons:
  assumes "find (\<lambda>x. order_id x = oid) mirror = Some m"
  shows "(\<exists>buttons. viewOrder oid mirror = Some (Inr buttons) \<and> b \<in> set buttons)
           = (items m \<noteq> None \<and> transition_legal (status m) b)"
  using assms by (cases "items m") (auto simp: viewOrder_def statusActions_legal)

text \<open>
  C1, amended. \<open>changeStatus\<close> validates no edge: for every order \<open>d\<close> of the store,
  whatever its status, and every target status \<open>b\<close>, once the admin confirms the dialog
  the call reports success, sets the status to \<open>b\<close> and \<open>updatedAt\<close> to the time of the
  call, and adds the history entry for \<open>b\<close> to \<open>statusHistory\<close>. The legal edges are
  enforced by the order dialog alone: for the order \<open>m\<close> of the mirror, \<open>viewOrder\<close>
  renders a button with target \<open>b\<close> exactly when \<open>m\<close> has its items (without them
  \<open>viewOrder\<close> throws and renders nothing) and \<open>b\<close> is the immediate forward successor
  of the status of \<open>m\<close>, or \<open>b\<close> is \<open>cancelled\<close> and that status is neither \<open>delivered\<close>
  nor \<open>cancelled\<close>.
\<close>

theorem changeStatus_any_edge:
  assumes "find (\<lambda>x. order_id x = oid) store = Some d"
      and "find (\<lambda>x. order_id x = oid) mirror = Some m"
  shows "sc_toasts (changeStatus inherited True now1 now2 (Some adm) oid b store) =
           [Toast ''Updating status...'' ''info'',
            Toast (''Order '' @ formatStatus inherited b @ '' successfully!'') ''success'']
   \<and> find (\<lambda>x. order_id x = oid)
         (sc_orders (changeStatus inherited True now1 now2 (Some adm) oid b store)) =
       Some (d\<lparr>status := b, updatedAt := Some now1,
               statusHistory := arrayUnion \<lparr>h_status = b, h_timestamp = now2,
                   h_message = ''Order '' @ formatStatus inherited b @ '' by admin'',
                   h_updatedBy = ad_email adm\<rparr> (statusHistory d)\<rparr>)
   \<and> (\<exists>buttons. viewOrder oid mirror = Some (Inr buttons) \<and> b \<in> set buttons)
         = (items m \<noteq> None \<and> transition_legal (status m) b)"
proof -
  let ?upd = "\<lambda>d. d\<lparr>status := b, updatedAt := Some now1,
               statusHistory := arrayUnion \<lparr>h_status = b, h_timestamp = now2,
                   h_message = ''Order '' @ formatStatus inherited b @ '' by admin'',
                   h_updatedBy = ad_email adm\<rparr> (statusHistory d)\<rparr>"
  have mem: "oid \<in> order_id ` set store" using assms(1) by (rule find_Some_mem)
  have upd: "updateDoc oid ?upd store = Inr (map (\<lambda>d. if order_id d = oid then ?upd d else d) store)"
    using mem by (simp add: updateDoc_def)
  have found: "find (\<lambda>x. order_id x = oid) (map (\<lambda>d. if order_id d = oid then ?upd d else d) store)
                 = Some (?upd d)"
    using assms(1) by (rule find_map_upd) simp
  have run: "changeStatus inherited True now1 now2 (Some adm) oid b store =
               \<lparr>sc_toasts = [Toast ''Updating status...'' ''info'',
                    Toast (''Order '' @ formatStatus inherited b @ '' successfully!'') ''success''],
                sc_orders = map (\<lambda>d. if order_id d = oid then ?upd d else d) store,
                sc_modalClosed = True\<rparr>"
    unfolding changeStatus_def Let_def using upd by simp
  show ?thesis
    unfolding run using found viewOrder_buttons [OF assms(2), of b] by simp
qed

theorem changeStatus_any_edge_witness:
  "sc_toasts (changeStatus chrome_inherited True ''t1'' ''t2''
        (Some \<lparr>ad_uid = ''u2'', ad_email = ''root@example.com'', ad_role = ''admin'',
               isSuperAdmin = False\<rparr>)
        ''B'' ''delivered''
        [order_with_items ''A'' 100 ''delivered'' 5, order_with_items ''B'' 40 ''confirmed'' 7]) =
       [Toast ''Updating status...'' ''info'', Toast ''Order Delivered successfully!'' ''success'']
   \<and> map status (sc_orders (changeStatus chrome_inherited True ''t1'' ''t2''
        (Some \<lparr>ad_uid = ''u2'', ad_email = ''root@example.com'', ad_role = ''admin'',
               isSuperAdmin = False\<rparr>)
        ''B'' ''delivered''
        [order_with_items ''A'' 100 ''delivered'' 5, order_with_items ''B'' 40 ''confirmed'' 7]))
       = [''delivered'', ''delivered'']
   \<and> viewOrder ''B'' [order_with_items ''A'' 100 ''delivered'' 5, order_with_items ''B'' 40 ''confirmed'' 7]
       = Some (Inr [''packed'', ''cancelled''])
   \<and> \<not> transition_legal ''confirmed'' ''delivered''"
proof -
  have f: "find (\<lambda>x. order_id x = ''B'')
             [order_with_items ''A'' 100 ''delivered'' 5, order_with_items ''B'' 40 ''confirmed'' 7]
           = Some (order_with_items ''B'' 40 ''confirmed'' 7)"
    by (simp add: order_with_items_def example_order_def)
  show ?thesis
    using changeStatus_any_edge [OF f f, where ?now1.0 = "''t1''" and ?now2.0 = "''t2''"
        and adm = "\<lparr>ad_uid = ''u2'', ad_email = ''root@example.com'', ad_role = ''admin'',
                    isSuperAdmin = False\<rparr>"
        and b = "''delivered''" and inherited = chrome_inherited]
    by (simp add: changeStatus_def updateDoc_def order_with_items_def example_order_def
        formatStatus_def transition_legal_def successor_def viewOrder_def statusActions_def)
qed

section \<open>Filtering and pagination of the orders table\<close>

lemma str_includes_sublist: "str_includes s t = sublist t s"
  by (induction s) (simp_all add: sublist_Cons_right)

lemma field_includes_sublist:
  "q \<noteq> [] \<Longrightarrow> field_includes field q = opt_sublist q field"
  by (cases field) (auto simp: field_includes_def opt_sublist_def str_includes_sublist)

lemma matchesSearch_iff: "matchesSearch q ord = search_matches q ord"
proof (cases "q = []")
  case True
  then show ?thesis by (simp add: matchesSearch_def search_matches_def)
next
  case False
  then show ?thesis
    by (simp add: matchesSearch_def search_matches_def field_includes_sublist
        str_includes_sublist split: option.splits)
qed

lemma matchesDate_iff:
  "createdAt ord \<noteq> Absent \<Longrightarrow> matchesDate df starts ord = date_in_range df starts ord"
  by (cases "createdAt ord") (auto simp: matchesDate_def date_in_range_def)

lemma slice_page:
  assumes "0 \<le> start"
  shows "slice xs start (min (start + 10) (int (length xs))) = take 10 (drop (nat start) xs)"
proof -
  let ?n = "int (length xs)"
  consider (full) "start + 10 \<le> ?n" | (last) "start < ?n" "?n < start + 10" | (beyond) "?n \<le> start"
    by linarith
  then show ?thesis
  proof cases
    case full
    then have "slice xs start (min (start + 10) ?n) = take (nat 10) (drop (nat start) xs)"
      using assms by (simp add: slice_def Let_def min_def)
    then show ?thesis by simp
  next
    case last
    then have "slice xs start (min (start + 10) ?n) = take (nat (?n - start)) (drop (nat start) xs)"
      using assms by (simp add: slice_def Let_def min_def)
    moreover have "length (drop (nat start) xs) = nat (?n - start)"
      using assms by (simp add: nat_diff_distrib)
    moreover have "nat (?n - start) \<le> 10" using last by simp
    ultimately show ?thesis by simp
  next
    case beyond
    then show ?thesis using assms by (simp add: slice_def Let_def min_def)
  qed
qed

lemma renderTable_page:
  assumes "1 \<le> p"
  shows "renderTable (changePage p pg) = take 10 (drop (10 * nat (p - 1)) (filteredOrders pg))"
proof (cases "filteredOrders pg = []")
  case True
  then show ?thesis by (simp add: renderTable_def changePage_def)
next
  case False
  have "nat ((p - 1) * 10) = 10 * nat (p - 1)" using assms by (simp add: nat_mult_distrib)
  then show ?thesis using False assms slice_page [of "(p - 1) * 10" "filteredOrders pg"]
    by (simp add: renderTable_def changePage_def itemsPerPage_def Let_def)
qed

lemma div_succ:
  fixes x k :: int
  assumes "0 < k"
  shows "(x + 1) div k = x div k + (if (x + 1) mod k = 0 then 1 else 0)"
proof -
  define q r where "q = x div k" and "r = x mod k"
  have x: "x = q * k + r" and r: "0 \<le> r" "r < k"
    using assms by (simp_all add: q_def r_def)
  show ?thesis
  proof (cases "r + 1 = k")
    case True
    then have "x + 1 = (q + 1) * k" using x by (simp add: algebra_simps)
    then have "(x + 1) div k = q + 1" "(x + 1) mod k = 0" using assms by simp_all
    then show ?thesis by (simp add: q_def)
  next
    case False
    then have lt: "0 \<le> r + 1" "r + 1 < k" using r by simp_all
    have "x + 1 = (r + 1) + q * k" using x by simp
    then have "(x + 1) div k = q" "(x + 1) mod k = r + 1"
      using lt assms by (simp_all only: div_mult_self1 mod_mult_self1 div_pos_pos_trivial mod_pos_pos_trivial)
    then show ?thesis using lt r by (simp add: q_def)
  qed
qed

lemma mod_400_100_4: "x mod 400 = 0 \<Longrightarrow> x mod 100 = 0" "x mod 100 = 0 \<Longrightarrow> x mod 4 = 0" for x :: int
  by auto

lemma mod_shift:
  "(y - 1969) mod 4 = (y - 1) mod 4" "(y - 1901) mod 100 = (y - 1) mod 100"
  "(y - 1601) mod 400 = (y - 1) mod 400" for y :: int
proof -
  have "y - 1969 = (y - 1) + (- 492) * 4" "y - 1901 = (y - 1) + (- 19) * 100"
    "y - 1601 = (y - 1) + (- 4) * 400" by simp_all
  then show "(y - 1969) mod 4 = (y - 1) mod 4" "(y - 1901) mod 100 = (y - 1) mod 100"
    "(y - 1601) mod 400 = (y - 1) mod 400"
    by (simp_all only: mod_mult_self1)
qed

lemma DayFromYear_step:
  "DayFromYear y = DayFromYear (y - 1) + (if isLeapYear (y - 1) then 366 else 365)"
proof -
  have a: "(y - 1969) div 4 = (y - 1970) div 4 + (if (y - 1) mod 4 = 0 then 1 else 0)"
    using div_succ [of 4 "y - 1970"] mod_shift(1) [of y] by simp
  have b: "(y - 1901) div 100 = (y - 1902) div 100 + (if (y - 1) mod 100 = 0 then 1 else 0)"
    using div_succ [of 100 "y - 1902"] mod_shift(2) [of y] by simp
  have c: "(y - 1601) div 400 = (y - 1602) div 400 + (if (y - 1) mod 400 = 0 then 1 else 0)"
    using div_succ [of 400 "y - 1602"] mod_shift(3) [of y] by simp
  have "DayFromYear y - DayFromYear (y - 1) =
          365 + (if (y - 1) mod 4 = 0 then 1 else 0) - (if (y - 1) mod 100 = 0 then 1 else 0)
              + (if (y - 1) mod 400 = 0 then 1 else 0)"
    unfolding DayFromYear_def a b c by simp
  then show ?thesis
    using mod_400_100_4 [of "y - 1"] by (auto simp: isLeapYear_def split: if_splits)
qed

lemma MakeDay_previous_month:
  assumes "0 \<le> m" "m \<le> 11"
  shows "MakeDay y (m - 1) d =
           MakeDay y m d - DaysInMonth (if m = 0 then y - 1 else y) (if m = 0 then 11 else m - 1)"
proof -
  have "m = 0 \<or> m = 1 \<or> m = 2 \<or> m = 3 \<or> m = 4 \<or> m = 5 \<or> m = 6 \<or> m = 7
        \<or> m = 8 \<or> m = 9 \<or> m = 10 \<or> m = 11"
    using assms by arith
  moreover have "MakeDay y (0 - 1) d = MakeDay y 0 d - DaysInMonth (y - 1) 11"
    using DayFromYear_step [of y]
    by (simp add: MakeDay_def DayWithinYear_def DaysInMonth_def)
  moreover have "MakeDay y (k - 1) d = MakeDay y k d - DaysInMonth y (k - 1)"
    if "k \<in> {1, 2, 3, 4, 5, 6, 7, 8, 9, 10, 11}" for k
    using that by (auto simp: MakeDay_def DayWithinYear_def DaysInMonth_def)
  ultimately show ?thesis by auto
qed

lemma MakeDay_date: "MakeDay y m (d - k) = MakeDay y m d - k"
  by (simp add: MakeDay_def Let_def)

lemma dateRangeStarts_today:
  "today (dateRangeStarts toUTC now) = toUTC (local_now now - timeWithinDay now)"
  by (simp add: dateRangeStarts_def local_now_def MakeDate_def)

lemma dateRangeStarts_weekAgo:
  "weekAgo (dateRangeStarts toUTC now) = toUTC (local_now now - 7 * msPerDay)"
  by (simp add: dateRangeStarts_def local_now_def MakeDate_def MakeDay_date algebra_simps)

lemma dateRangeStarts_monthAgo:
  assumes "0 \<le> getMonth now" "getMonth now \<le> 11"
  shows "monthAgo (dateRangeStarts toUTC now)
           = toUTC (local_now now - previous_month_length now * msPerDay)"
proof -
  have e: "MakeDay (getFullYear now) (getMonth now - 1) (getDate now)
          = MakeDay (getFullYear now) (getMonth now) (getDate now) - previous_month_length now"
    unfolding previous_month_length_def by (rule MakeDay_previous_month [OF assms])
  have "MakeDate (MakeDay (getFullYear now) (getMonth now - 1) (getDate now)) (timeWithinDay now)
          = (MakeDay (getFullYear now) (getMonth now) (getDate now) - previous_month_length now)
              * msPerDay + timeWithinDay now"
    by (simp only: e MakeDate_def)
  also have "\<dots> = local_now now - previous_month_length now * msPerDay"
    by (simp add: MakeDate_def local_now_def algebra_simps)
  finally show ?thesis by (simp add: dateRangeStarts_def)
qed

lemma date_in_range_now:
  assumes "0 \<le> getMonth now" "getMonth now \<le> 11"
  shows "date_in_range df (dateRangeStarts toUTC now) ord = created_in_range df toUTC now ord"
  unfolding date_in_range_def created_in_range_def
  by (simp only: dateRangeStarts_today dateRangeStarts_weekAgo dateRangeStarts_monthAgo [OF assms])

text \<open>
  In a time zone with a fixed offset from UTC the starts are the instant of the reading
  less the time since local midnight, less seven days, and less the length of the
  previous calendar month.
\<close>

lemma dateRangeStarts_fixed_offset:
  assumes "0 \<le> getMonth now" "getMonth now \<le> 11"
  shows "today (dateRangeStarts (\<lambda>t. t - offset) now) = (local_now now - offset) - timeWithinDay now"
    and "weekAgo (dateRangeStarts (\<lambda>t. t - offset) now) = (local_now now - offset) - 7 * msPerDay"
    and "monthAgo (dateRangeStarts (\<lambda>t. t - offset) now)
           = (local_now now - offset) - previous_month_length now * msPerDay"
  by (simp_all add: dateRangeStarts_today dateRangeStarts_weekAgo dateRangeStarts_monthAgo [OF assms])

text \<open>
  At noon of 31 March 2024 the range \<open>month\<close> starts at noon of 2 March, 29 days
  earlier, while one calendar month before that noon is noon of 29 February.
\<close>

lemma month_range_on_31_march_2024:
  "monthAgo (dateRangeStarts india noon_31_march_2024) = india (MakeDate (MakeDay 2024 2 2) 43200000)"
  "one_calendar_month_before noon_31_march_2024 = MakeDate (MakeDay 2024 1 29) 43200000"
  by code_simp+

text \<open>
  The filtering example of the specification: the status filter \<open>confirmed\<close> and the
  date filter \<open>today\<close> each yield exactly A, the search \<open>B\<close> yields exactly B.
\<close>

lemma applyFilters_specification_examples:
  "map order_id (filteredOrders (applyFilters \<lparr>searchInput = [], statusFilter = ''confirmed'', dateFilter = ''all''\<rparr>
       example_starts (page_of orders_AB))) = [''A'']
   \<and> map order_id (filteredOrders (applyFilters \<lparr>searchInput = [], statusFilter = [], dateFilter = ''today''\<rparr>
       example_starts (page_of orders_AB))) = [''A'']
   \<and> map order_id (filteredOrders (applyFilters \<lparr>searchInput = ''B'', statusFilter = [], dateFilter = ''all''\<rparr>
       example_starts (page_of orders_AB))) = [''B'']"
  by code_simp

text \<open>
  C7, as the specification states it, fails. The status filter \<open>all\<close> is not a no-op: it is
  compared with the status like any other value, so no order passes. The phone is
  searched without case folding: \<open>EXT\<close> is a case-insensitive substring of the phone
  \<open>040-555 EXT 9\<close>, yet the search \<open>EXT\<close> does not find the order. And the range \<open>month\<close>
  does not start one calendar month before now: at noon of 31 March 2024 an order
  created at noon of 1 March, after noon of 29 February, is not in it.
\<close>

theorem applyFilters_status_all_phone_case:
  "filteredOrders (applyFilters \<lparr>searchInput = [], statusFilter = ''all'', dateFilter = ''all''\<rparr>
       example_starts (page_of orders_AB)) = []
   \<and> sublist (toLowerCase ''EXT'') (toLowerCase ''040-555 EXT 9'')
   \<and> filteredOrders (applyFilters \<lparr>searchInput = ''EXT'', statusFilter = [], dateFilter = ''all''\<rparr>
       example_starts
       (page_of [(example_order ''A'' 100 ''confirmed'' 86400000)
          \<lparr>address := Some \<lparr>addr_name = None, addr_phone = Some ''040-555 EXT 9'',
                             addr_email = None\<rparr>\<rparr>])) = []
   \<and> on_or_after (createdAt order_of_1_march_2024)
         (india (one_calendar_month_before noon_31_march_2024))
   \<and> filteredOrders (applyFilters \<lparr>searchInput = [], statusFilter = [], dateFilter = ''month''\<rparr>
       (dateRangeStarts india noon_31_march_2024) (page_of [order_of_1_march_2024])) = []"
  by code_simp

text \<open>
  C7, amended. An order with a creation timestamp is in the filtered set exactly when
  it is in the mirror and: the search term, lower-cased and trimmed, is a substring of
  the lower-cased id, name or email, or of the phone as stored (an empty term matches
  every order); the status filter is empty or equals the status (\<open>all\<close> is not special);
  and the order was created at or after the start of the range of the date filter:
  local midnight for \<open>today\<close>, the local time seven days before now for \<open>week\<close>, and for
  \<open>month\<close> the local time that lies the length of the previous calendar month (28 to 31
  days) before now, which is the same day of the previous month only when that month
  has the day. Any other value of the date filter restricts nothing. Applying the
  filters sets the page to 1; page \<open>p\<close> shows the ten orders of the filtered set from
  position \<open>10 * (p - 1)\<close> on, and changing the page leaves the mirror and the filtered set
  as they are.
\<close>

theorem applyFilters_characterisation:
  assumes "createdAt ord \<noteq> Absent" and "1 \<le> p"
      and "0 \<le> getMonth now" and "getMonth now \<le> 11"
  shows "(ord \<in> set (filteredOrders (applyFilters f (dateRangeStarts toUTC now) pg))) =
           (ord \<in> set (allOrders pg)
            \<and> search_matches (trim (toLowerCase (searchInput f))) ord
            \<and> (statusFilter f = [] \<or> status ord = statusFilter f)
            \<and> created_in_range (dateFilter f) toUTC now ord)
     \<and> currentPage (applyFilters f (dateRangeStarts toUTC now) pg) = 1
     \<and> renderTable (changePage p pg) = take 10 (drop (10 * nat (p - 1)) (filteredOrders pg))
     \<and> allOrders (changePage p pg) = allOrders pg
     \<and> filteredOrders (changePage p pg) = filteredOrders pg"
proof -
  have "(ord \<in> set (filteredOrders (applyFilters f (dateRangeStarts toUTC now) pg))) =
           (ord \<in> set (allOrders pg)
            \<and> search_matches (trim (toLowerCase (searchInput f))) ord
            \<and> (statusFilter f = [] \<or> status ord = statusFilter f)
            \<and> created_in_range (dateFilter f) toUTC now ord)"
    using assms(1) date_in_range_now [OF assms(3,4), of "dateFilter f" toUTC ord]
    by (simp add: applyFilters_def Let_def matchesSearch_iff matchesStatus_def matchesDate_iff)
  moreover have "currentPage (applyFilters f (dateRangeStarts toUTC now) pg) = 1"
    by (simp add: applyFilters_def Let_def)
  moreover have "renderTable (changePage p pg) = take 10 (drop (10 * nat (p - 1)) (filteredOrders pg))"
    using assms(2) by (rule renderTable_page)
  moreover have "allOrders (changePage p pg) = allOrders pg"
    and "filteredOrders (changePage p pg) = filteredOrders pg"
    by (simp_all add: changePage_def)
  ultimately show ?thesis by simp
qed

theorem applyFilters_characterisation_witness:
  "order_of_1_march_2024 \<notin> set (filteredOrders (applyFilters
       \<lparr>searchInput = '' m '', statusFilter = ''confirmed'', dateFilter = ''month''\<rparr>
       (dateRangeStarts india noon_31_march_2024) (page_of [order_of_1_march_2024])))
   \<and> order_of_1_march_2024 \<in> set (filteredOrders (applyFilters
       \<lparr>searchInput = '' m '', statusFilter = ''confirmed'', dateFilter = ''all''\<rparr>
       (dateRangeStarts india noon_31_march_2024) (page_of [order_of_1_march_2024])))
   \<and> currentPage (applyFilters
       \<lparr>searchInput = '' m '', statusFilter = ''confirmed'', dateFilter = ''month''\<rparr>
       (dateRangeStarts india noon_31_march_2024) (page_of [order_of_1_march_2024])) = 1
   \<and> renderTable (changePage 2 \<lparr>allOrders = orders_AB, filteredOrders = orders_AB, currentPage = 1\<rparr>) = []"
proof -
  have c: "createdAt order_of_1_march_2024 \<noteq> Absent"
    by (simp add: order_of_1_march_2024_def example_order_def)
  have m: "0 \<le> getMonth noon_31_march_2024" "getMonth noon_31_march_2024 \<le> 11"
    by (simp_all add: noon_31_march_2024_def)
  have s: "search_matches (trim (toLowerCase '' m '')) order_of_1_march_2024"
    by code_simp
  have r: "\<not> created_in_range ''month'' india noon_31_march_2024 order_of_1_march_2024"
    "created_in_range ''all'' india noon_31_march_2024 order_of_1_march_2024"
    by code_simp+
  have st: "status order_of_1_march_2024 = ''confirmed''"
    by (simp add: order_of_1_march_2024_def example_order_def)
  show ?thesis
    using applyFilters_characterisation [OF c _ m, of 2
        "\<lparr>searchInput = '' m '', statusFilter = ''confirmed'', dateFilter = ''month''\<rparr>"
        india "page_of [order_of_1_march_2024]"]
      applyFilters_characterisation [OF c _ m, of 2
        "\<lparr>searchInput = '' m '', statusFilter = ''confirmed'', dateFilter = ''all''\<rparr>"
        india "\<lparr>allOrders = orders_AB, filteredOrders = orders_AB, currentPage = 1\<rparr>"]
      applyFilters_characterisation [OF c _ m, of 2
        "\<lparr>searchInput = '' m '', statusFilter = ''confirmed'', dateFilter = ''all''\<rparr>"
        india "page_of [order_of_1_march_2024]"]
      s r st
    by (simp add: page_of_def orders_AB_def)
qed

section \<open>New-arrival notifications\<close>

text \<open>
  The orders listener shows nothing when every document of the snapshot is reported as
  added, as on the first population of an empty mirror, and exactly one toast for a
  batch of \<open>k\<close> additions that leaves more than \<open>k\<close> orders in the mirror.
\<close>

lemma applyFilters_allOrders: "allOrders (applyFilters f starts pg) = allOrders pg"
  by (simp add: applyFilters_def Let_def)

lemma listenToOrders_first_population:
  "length (filter (\<lambda>c. ch_type c = Added) (snap_docChanges snapshot)) = length (snap_docs snapshot)
   \<Longrightarrow> fst (listenToOrders f starts snapshot pg) = []"
  by (simp add: listenToOrders_def applyFilters_allOrders Let_def)

lemma listenToOrders_one_toast:
  assumes "k = length (filter (\<lambda>c. ch_type c = Added) (snap_docChanges snapshot))"
     "0 < k" "k < length (snap_docs snapshot)"
  shows "fst (listenToOrders f starts snapshot pg) = [Toast (showNat k @ '' new order(s) received!'') ''info'']"
proof -
  have "filter (\<lambda>c. ch_type c = Added) (snap_docChanges snapshot) \<noteq> []"
    using assms(1,2) by auto
  then obtain c where "c \<in> set (snap_docChanges snapshot)" "ch_type c = Added"
    by (auto simp: filter_empty_conv)
  then have "Added \<in> set (map ch_type (snap_docChanges snapshot))" by force
  then show ?thesis using assms
    by (simp add: listenToOrders_def applyFilters_allOrders Let_def)
qed

text \<open>
  C8. The users listener does not do the same. On the first snapshot, delivering two
  users to the empty mirror, it shows a toast for each of them; and a later batch of two
  additions to a mirror of two users shows two toasts, not one.
\<close>

theorem setupRealtimeUsersListener_toasts_per_record:
  "setupRealtimeUsersListener
      \<lparr>snap_docs = [example_user ''u1'' ''Asha'', example_user ''u2'' ''Ben''],
       snap_docChanges = [added (example_user ''u1'' ''Asha''), added (example_user ''u2'' ''Ben'')]\<rparr> [] =
     ([Toast ''New user registered: Asha'' ''success'', Toast ''New user registered: Ben'' ''success''],
      [example_user ''u1'' ''Asha'', example_user ''u2'' ''Ben''])
   \<and> fst (setupRealtimeUsersListener
      \<lparr>snap_docs = [example_user ''u4'' ''Dev'', example_user ''u3'' ''Cy'', example_user ''u1'' ''Asha'', example_user ''u2'' ''Ben''],
       snap_docChanges = [added (example_user ''u4'' ''Dev''), added (example_user ''u3'' ''Cy'')]\<rparr>
       [example_user ''u1'' ''Asha'', example_user ''u2'' ''Ben'']) =
     [Toast ''New user registered: Dev'' ''success'', Toast ''New user registered: Cy'' ''success'']"
  by (simp add: setupRealtimeUsersListener_def example_user_def added_def name_or_email_def)


section \<open>CSV export\<close>

















end
